theory Spec2Isabelle
  imports Main "HOL-Library.Word"
begin

section \<open>Data model (features/auth/types/auth.types.ts)\<close>

text \<open>
  The opaque metadata map \<^verbatim>\<open>Record<string, unknown>\<close> is an association list; an
  optional field of the source is an \<open>option\<close>.
\<close>

type_synonym metadata_map = "(string \<times> string) list"

record User =
  id_User :: string
  email :: string
  emailVerified :: bool
  metadata :: "metadata_map option"

record AuthTokens =
  accessToken :: string
  refreshToken :: "string option"
  expiresAt :: "nat option"

record LoginCredentials =
  cred_email :: string
  password :: string

record SignupCredentials = LoginCredentials +
  cred_metadata :: "metadata_map option"

record AuthState =
  user :: "User option"
  tokens :: "AuthTokens option"
  isLoading :: bool
  isAuthenticated :: bool

text \<open>
  The \<^verbatim>\<open>status\<close> property of a caught value, when it is neither undefined nor null.
  \<open>IntegerStatus n\<close> is a number that is an integer from 0 to \<open>2^32 - 1\<close>, as every
  HTTP status is. \<open>OtherStatus t\<close> is any other value (a larger, negative or
  fractional number, \<^verbatim>\<open>NaN\<close>, a string, ...), kept as the string \<open>t\<close> that its
  \<^verbatim>\<open>toString()\<close> gives.
\<close>

datatype js_status = IntegerStatus "32 word" | OtherStatus string

text \<open>
  What \<^verbatim>\<open>handleError\<close> can observe of a value of type \<^verbatim>\<open>unknown\<close>: whether it is a
  non-null object, whether it has a \<^verbatim>\<open>message\<close> property, whether it is an instance of
  \<^verbatim>\<open>Error\<close>, its \<^verbatim>\<open>status\<close> (\<open>None\<close> when undefined or null), and its
  \<^verbatim>\<open>message\<close>.
\<close>

record js_error =
  is_object :: bool
  has_message :: bool
  instanceof_Error :: bool
  status :: "js_status option"
  err_message :: string

record AuthError =
  code :: string
  message :: string
  details :: "js_error option"

datatype 'a AuthResult = Success 'a | Failure AuthError

record session_data =
  data_user :: User
  data_tokens :: AuthTokens

text \<open>The value \<^verbatim>\<open>{ success: boolean; error?: string }\<close> that login and signup resolve with.\<close>

record call_outcome =
  success :: bool
  error :: "string option"

section \<open>The adapter interface (features/auth/adapters/AuthAdapter.interface.ts)\<close>

text \<open>
  An adapter is seen from the provider component through the results its methods
  resolve with. Every method returns a tagged result, so a failing provider call is a
  \<open>Failure\<close> value and not an exception.
\<close>

record AuthAdapter =
  adapter_initialize :: "session_data option AuthResult"
  adapter_login :: "LoginCredentials \<Rightarrow> session_data AuthResult"
  adapter_signup :: "SignupCredentials \<Rightarrow> session_data AuthResult"
  adapter_logout :: "unit AuthResult"
  adapter_getCurrentUser :: "User option AuthResult"
  adapter_getAccessToken :: "string option"
  adapter_refreshToken :: "AuthTokens AuthResult"
  adapter_requestPasswordReset :: "string \<Rightarrow> unit AuthResult"
  adapter_updatePassword :: "string \<Rightarrow> unit AuthResult"

section \<open>The provider component (features/auth/context/AuthContext.tsx)\<close>

text \<open>The argument of \<^verbatim>\<open>useState\<close>: loading, nobody signed in.\<close>

definition initial_state :: AuthState where
  "initial_state = \<lparr>user = None, tokens = None, isLoading = True, isAuthenticated = False\<rparr>"

text \<open>
  \<^verbatim>\<open>initializeAuth\<close>, after \<^verbatim>\<open>await adapter.initialize()\<close>. The flag \<open>mounted\<close> is
  the closure variable of the effect: an unmounted component ignores the result.
\<close>

definition initializeAuth_settle ::
    "bool \<Rightarrow> session_data option AuthResult \<Rightarrow> AuthState \<Rightarrow> AuthState" where
  "initializeAuth_settle mounted result s =
     (if \<not> mounted then s
      else (case result of
              Success (Some d) \<Rightarrow>
                \<lparr>user = Some (data_user d), tokens = Some (data_tokens d),
                 isLoading = False, isAuthenticated = True\<rparr>
            | _ \<Rightarrow>
                \<lparr>user = None, tokens = None, isLoading = False, isAuthenticated = False\<rparr>))"

text \<open>The callback registered with \<^verbatim>\<open>adapter.onAuthStateChange\<close>.\<close>

definition authStateChange :: "User option \<Rightarrow> AuthTokens option \<Rightarrow> AuthState \<Rightarrow> AuthState" where
  "authStateChange u t s =
     \<lparr>user = u, tokens = t, isLoading = False, isAuthenticated = (u \<noteq> None)\<rparr>"

text \<open>
  The asynchronous operations are written in two parts, split where the source awaits
  the adapter: what runs when the operation is called, and what runs when the adapter's
  promise has resolved with \<open>result\<close>. The functional update
  \<^verbatim>\<open>setState((prev) => ...)\<close> reads the state current at that moment.
\<close>

definition set_loading :: "AuthState \<Rightarrow> AuthState" where
  "set_loading prev = prev\<lparr>isLoading := True\<rparr>"

definition login_settle ::
    "session_data AuthResult \<Rightarrow> AuthState \<Rightarrow> AuthState \<times> call_outcome" where
  "login_settle result s =
     (case result of
        Success d \<Rightarrow>
          (\<lparr>user = Some (data_user d), tokens = Some (data_tokens d),
            isLoading = False, isAuthenticated = True\<rparr>,
           \<lparr>success = True, error = None\<rparr>)
      | Failure e \<Rightarrow>
          (s\<lparr>isLoading := False\<rparr>, \<lparr>success = False, error = Some (message e)\<rparr>))"

definition login :: "AuthAdapter \<Rightarrow> LoginCredentials \<Rightarrow> AuthState \<Rightarrow> AuthState \<times> call_outcome" where
  "login adapter credentials s =
     login_settle (adapter_login adapter credentials) (set_loading s)"

definition signup_settle ::
    "session_data AuthResult \<Rightarrow> AuthState \<Rightarrow> AuthState \<times> call_outcome" where
  "signup_settle result s =
     (case result of
        Success d \<Rightarrow>
          (\<lparr>user = Some (data_user d), tokens = Some (data_tokens d),
            isLoading = False, isAuthenticated = True\<rparr>,
           \<lparr>success = True, error = None\<rparr>)
      | Failure e \<Rightarrow>
          (s\<lparr>isLoading := False\<rparr>, \<lparr>success = False, error = Some (message e)\<rparr>))"

definition signup :: "AuthAdapter \<Rightarrow> SignupCredentials \<Rightarrow> AuthState \<Rightarrow> AuthState \<times> call_outcome" where
  "signup adapter credentials s =
     signup_settle (adapter_signup adapter credentials) (set_loading s)"

text \<open>\<^verbatim>\<open>logout\<close> awaits the adapter and does not look at what it resolved with.\<close>

definition logout_settle :: "unit AuthResult \<Rightarrow> AuthState \<Rightarrow> AuthState" where
  "logout_settle result s =
     \<lparr>user = None, tokens = None, isLoading = False, isAuthenticated = False\<rparr>"

definition logout :: "AuthAdapter \<Rightarrow> AuthState \<Rightarrow> AuthState" where
  "logout adapter s = logout_settle (adapter_logout adapter) (set_loading s)"

text \<open>
  \<^verbatim>\<open>refreshAuth\<close> awaits \<^verbatim>\<open>adapter.getCurrentUser()\<close> and resolves with no value.
\<close>

definition refreshAuth_settle :: "User option AuthResult \<Rightarrow> AuthState \<Rightarrow> AuthState" where
  "refreshAuth_settle result prev =
     (case result of
        Success (Some u) \<Rightarrow> prev\<lparr>user := Some u, isAuthenticated := True\<rparr>
      | _ \<Rightarrow> prev)"

definition refreshAuth :: "AuthAdapter \<Rightarrow> AuthState \<Rightarrow> AuthState" where
  "refreshAuth adapter s = refreshAuth_settle (adapter_getCurrentUser adapter) s"

definition getAccessToken :: "AuthAdapter \<Rightarrow> string option" where
  "getAccessToken adapter = adapter_getAccessToken adapter"

section \<open>The Supabase adapter (features/auth/adapters/SupabaseAuthAdapter.ts)\<close>

text \<open>
  A field of a provider object read with \<^verbatim>\<open>any\<close> type: absent, null, or a string.
  On these values \<^verbatim>\<open>!==\<close> is plain inequality.
\<close>

datatype js_value = JsUndefined | JsNull | JsString string

record supabase_user =
  su_id :: string
  su_email :: string
  email_confirmed_at :: js_value
  user_metadata :: "metadata_map option"

record supabase_session =
  access_token :: string
  refresh_token :: "string option"
  expires_at :: "nat option"
  session_user :: "supabase_user option"

text \<open>
  A call of the vendor client either throws (the adapter catches the value) or resolves
  with \<^verbatim>\<open>{ data, error }\<close>; \<open>resp_error = None\<close> is \<^verbatim>\<open>error: null\<close>. The
  client types the field \<^verbatim>\<open>AuthError | null\<close>, so an error that is present is an object
  and \<^verbatim>\<open>if (error)\<close> takes it.
\<close>

datatype 'a sdk_reply = Throws js_error | Resolves 'a

record sdk_response =
  resp_error :: "js_error option"
  resp_session :: "supabase_session option"
  resp_user :: "supabase_user option"

record SupabaseClient =
  getSession :: "sdk_response sdk_reply"
  signInWithPassword :: "string \<Rightarrow> string \<Rightarrow> sdk_response sdk_reply"
  signUp :: "string \<Rightarrow> string \<Rightarrow> metadata_map option \<Rightarrow> sdk_response sdk_reply"
  signOut :: "sdk_response sdk_reply"
  getUser :: "sdk_response sdk_reply"
  refreshSession :: "sdk_response sdk_reply"
  resetPasswordForEmail :: "string \<Rightarrow> sdk_response sdk_reply"
  updateUser :: "string \<Rightarrow> sdk_response sdk_reply"

definition mapUser :: "supabase_user \<Rightarrow> User" where
  "mapUser supabaseUser =
     \<lparr>id_User = su_id supabaseUser,
      email = su_email supabaseUser,
      emailVerified = (email_confirmed_at supabaseUser \<noteq> JsNull),
      metadata = user_metadata supabaseUser\<rparr>"

definition mapTokens :: "supabase_session \<Rightarrow> AuthTokens" where
  "mapTokens session =
     \<lparr>accessToken = access_token session,
      refreshToken = refresh_token session,
      expiresAt = expires_at session\<rparr>"

text \<open>
  \<^verbatim>\<open>Number.prototype.toString\<close> on an integer from 0 below \<open>10^21\<close>: its decimal
  digits. It is applied to the value of an \<open>IntegerStatus\<close> only.
\<close>

function number_toString :: "nat \<Rightarrow> string" where
  "number_toString n =
     (if n < 10 then [''0123456789'' ! n]
      else number_toString (n div 10) @ [''0123456789'' ! (n mod 10)])"
  by pat_completeness auto
termination
  by (relation "measure (\<lambda>n. n)") auto

declare number_toString.simps [simp del]

text \<open>\<^verbatim>\<open>status.toString()\<close> for a status that is neither undefined nor null.\<close>

fun status_toString :: "js_status \<Rightarrow> string" where
  "status_toString (IntegerStatus n) = number_toString (unat n)"
| "status_toString (OtherStatus t) = t"

text \<open>\<^verbatim>\<open>x || d\<close> for a string \<open>x\<close> that may be undefined: the empty string is falsy too.\<close>

definition or_default :: "string option \<Rightarrow> string \<Rightarrow> string" where
  "or_default x d = (case x of None \<Rightarrow> d | Some v \<Rightarrow> if v = [] then d else v)"

definition isSupabaseError :: "js_error \<Rightarrow> bool" where
  "isSupabaseError e = (is_object e \<and> has_message e)"

definition handleError :: "js_error \<Rightarrow> 'a AuthResult" where
  "handleError e =
     (if isSupabaseError e then
        Failure \<lparr>code = or_default (map_option status_toString (status e)) ''UNKNOWN'',
                 message = err_message e, details = Some e\<rparr>
      else if instanceof_Error e then
        Failure \<lparr>code = ''UNKNOWN'', message = err_message e, details = Some e\<rparr>
      else
        Failure \<lparr>code = ''UNKNOWN'', message = ''An unknown error occurred'',
                 details = Some e\<rparr>)"

text \<open>
  Each method runs inside \<^verbatim>\<open>try\<close>/\<^verbatim>\<open>catch\<close>, and the catch hands the caught value to
  \<^verbatim>\<open>handleError\<close>. In \<^verbatim>\<open>initialize\<close> the user is read from the session; on a
  session without a user \<^verbatim>\<open>mapUser\<close> reads a property of undefined, and the engine's
  \<^verbatim>\<open>TypeError\<close> is what the catch receives.
\<close>

definition SupabaseAuthAdapter_initialize :: "SupabaseClient \<Rightarrow> session_data option AuthResult" where
  "SupabaseAuthAdapter_initialize client =
     (case getSession client of
        Throws e \<Rightarrow> handleError e
      | Resolves r \<Rightarrow>
          (case resp_error r of
             Some e \<Rightarrow> handleError e
           | None \<Rightarrow>
               (case resp_session r of
                  None \<Rightarrow> Success None
                | Some sess \<Rightarrow>
                    (case session_user sess of
                       None \<Rightarrow> handleError \<lparr>is_object = True, has_message = True,
                                 instanceof_Error = True, status = None,
                                 err_message = ''Cannot read properties of undefined (reading 'id')''\<rparr>
                     | Some u \<Rightarrow>
                         Success (Some \<lparr>data_user = mapUser u, data_tokens = mapTokens sess\<rparr>)))))"

definition SupabaseAuthAdapter_login ::
    "SupabaseClient \<Rightarrow> LoginCredentials \<Rightarrow> session_data AuthResult" where
  "SupabaseAuthAdapter_login client credentials =
     (case signInWithPassword client (cred_email credentials) (password credentials) of
        Throws e \<Rightarrow> handleError e
      | Resolves r \<Rightarrow>
          (case resp_error r of
             Some e \<Rightarrow> handleError e
           | None \<Rightarrow>
               (case (resp_session r, resp_user r) of
                  (Some sess, Some u) \<Rightarrow>
                    Success \<lparr>data_user = mapUser u, data_tokens = mapTokens sess\<rparr>
                | _ \<Rightarrow>
                    Failure \<lparr>code = ''NO_SESSION'',
                             message = ''Login failed: no session returned'',
                             details = None\<rparr>)))"

definition SupabaseAuthAdapter_signup ::
    "SupabaseClient \<Rightarrow> SignupCredentials \<Rightarrow> session_data AuthResult" where
  "SupabaseAuthAdapter_signup client credentials =
     (case signUp client (cred_email credentials) (password credentials)
             (cred_metadata credentials) of
        Throws e \<Rightarrow> handleError e
      | Resolves r \<Rightarrow>
          (case resp_error r of
             Some e \<Rightarrow> handleError e
           | None \<Rightarrow>
               (case (resp_session r, resp_user r) of
                  (Some sess, Some u) \<Rightarrow>
                    Success \<lparr>data_user = mapUser u, data_tokens = mapTokens sess\<rparr>
                | _ \<Rightarrow>
                    Failure \<lparr>code = ''NO_SESSION'',
                             message = ''Signup succeeded but no session. Check email for verification.'',
                             details = None\<rparr>)))"

definition SupabaseAuthAdapter_logout :: "SupabaseClient \<Rightarrow> unit AuthResult" where
  "SupabaseAuthAdapter_logout client =
     (case signOut client of
        Throws e \<Rightarrow> handleError e
      | Resolves r \<Rightarrow>
          (case resp_error r of Some e \<Rightarrow> handleError e | None \<Rightarrow> Success ()))"

definition SupabaseAuthAdapter_getCurrentUser :: "SupabaseClient \<Rightarrow> User option AuthResult" where
  "SupabaseAuthAdapter_getCurrentUser client =
     (case getUser client of
        Throws e \<Rightarrow> handleError e
      | Resolves r \<Rightarrow>
          (case resp_error r of
             Some e \<Rightarrow> handleError e
           | None \<Rightarrow> Success (map_option mapUser (resp_user r))))"

definition SupabaseAuthAdapter_getAccessToken :: "SupabaseClient \<Rightarrow> string option" where
  "SupabaseAuthAdapter_getAccessToken client =
     (case getSession client of
        Throws e \<Rightarrow> None
      | Resolves r \<Rightarrow> map_option access_token (resp_session r))"

definition SupabaseAuthAdapter_refreshToken :: "SupabaseClient \<Rightarrow> AuthTokens AuthResult" where
  "SupabaseAuthAdapter_refreshToken client =
     (case refreshSession client of
        Throws e \<Rightarrow> handleError e
      | Resolves r \<Rightarrow>
          (case resp_error r of
             Some e \<Rightarrow> handleError e
           | None \<Rightarrow>
               (case resp_session r of
                  None \<Rightarrow> Failure \<lparr>code = ''NO_SESSION'', message = ''Token refresh failed'',
                                    details = None\<rparr>
                | Some sess \<Rightarrow> Success (mapTokens sess))))"

definition SupabaseAuthAdapter_requestPasswordReset :: "SupabaseClient \<Rightarrow> string \<Rightarrow> unit AuthResult" where
  "SupabaseAuthAdapter_requestPasswordReset client address =
     (case resetPasswordForEmail client address of
        Throws e \<Rightarrow> handleError e
      | Resolves r \<Rightarrow>
          (case resp_error r of Some e \<Rightarrow> handleError e | None \<Rightarrow> Success ()))"

definition SupabaseAuthAdapter_updatePassword :: "SupabaseClient \<Rightarrow> string \<Rightarrow> unit AuthResult" where
  "SupabaseAuthAdapter_updatePassword client newPassword =
     (case updateUser client newPassword of
        Throws e \<Rightarrow> handleError e
      | Resolves r \<Rightarrow>
          (case resp_error r of Some e \<Rightarrow> handleError e | None \<Rightarrow> Success ()))"

text \<open>What the adapter passes to the callback of \<^verbatim>\<open>onAuthStateChange\<close> for a session.\<close>

definition SupabaseAuthAdapter_notification ::
    "supabase_session option \<Rightarrow> User option \<times> AuthTokens option" where
  "SupabaseAuthAdapter_notification session =
     (case session of
        None \<Rightarrow> (None, None)
      | Some sess \<Rightarrow> (map_option mapUser (session_user sess), Some (mapTokens sess)))"

text \<open>The adapter object over a client: the methods the provider component calls.\<close>

definition SupabaseAuthAdapter :: "SupabaseClient \<Rightarrow> AuthAdapter" where
  "SupabaseAuthAdapter client =
     \<lparr>adapter_initialize = SupabaseAuthAdapter_initialize client,
      adapter_login = SupabaseAuthAdapter_login client,
      adapter_signup = SupabaseAuthAdapter_signup client,
      adapter_logout = SupabaseAuthAdapter_logout client,
      adapter_getCurrentUser = SupabaseAuthAdapter_getCurrentUser client,
      adapter_getAccessToken = SupabaseAuthAdapter_getAccessToken client,
      adapter_refreshToken = SupabaseAuthAdapter_refreshToken client,
      adapter_requestPasswordReset = SupabaseAuthAdapter_requestPasswordReset client,
      adapter_updatePassword = SupabaseAuthAdapter_updatePassword client\<rparr>"

section \<open>Overlapping calls\<close>

text \<open>
  A call of an operation runs up to its \<^verbatim>\<open>await\<close> at once: login, signup and logout
  set the loading flag and call the adapter, \<^verbatim>\<open>refreshAuth\<close> calls the adapter
  straight away. The rest runs when the adapter's promise resolves. An operation is
  written with the result its adapter call resolves with. \<open>pending_calls\<close> is
  instrumentation, the number of adapter calls awaited and not yet resolved; the source
  keeps no such count and tests none.
\<close>

record manager =
  auth_state :: AuthState
  pending_calls :: nat

datatype operation =
    Login "session_data AuthResult"
  | Signup "session_data AuthResult"
  | Logout "unit AuthResult"
  | RefreshAuth "User option AuthResult"

fun before_await :: "operation \<Rightarrow> AuthState \<Rightarrow> AuthState" where
  "before_await (Login result) s = set_loading s"
| "before_await (Signup result) s = set_loading s"
| "before_await (Logout result) s = set_loading s"
| "before_await (RefreshAuth result) s = s"

text \<open>
  After the await: the new state and what the call resolves with (\<open>None\<close> for logout
  and \<^verbatim>\<open>refreshAuth\<close>, which resolve with no value).
\<close>

fun after_await :: "operation \<Rightarrow> AuthState \<Rightarrow> AuthState \<times> call_outcome option" where
  "after_await (Login result) s =
     (fst (login_settle result s), Some (snd (login_settle result s)))"
| "after_await (Signup result) s =
     (fst (signup_settle result s), Some (snd (signup_settle result s)))"
| "after_await (Logout result) s = (logout_settle result s, None)"
| "after_await (RefreshAuth result) s = (refreshAuth_settle result s, None)"

definition operation_call :: "operation \<Rightarrow> manager \<Rightarrow> manager" where
  "operation_call opn m =
     \<lparr>auth_state = before_await opn (auth_state m), pending_calls = Suc (pending_calls m)\<rparr>"

definition operation_resolve :: "operation \<Rightarrow> manager \<Rightarrow> manager \<times> call_outcome option" where
  "operation_resolve opn m =
     (\<lparr>auth_state = fst (after_await opn (auth_state m)),
       pending_calls = pending_calls m - 1\<rparr>,
      snd (after_await opn (auth_state m)))"

text \<open>
  Two operations, the second called while the first is pending; the first adapter call
  resolves, then the second. The value holds the manager after both calls, after the
  first has settled and after the second has, and what the two calls resolved with.
\<close>

record overlap_trace =
  after_calls :: manager
  after_first :: manager
  first_outcome :: "call_outcome option"
  after_second :: manager
  second_outcome :: "call_outcome option"

definition overlapping :: "operation \<Rightarrow> operation \<Rightarrow> manager \<Rightarrow> overlap_trace" where
  "overlapping op1 op2 m =
     (let m2 = operation_call op2 (operation_call op1 m);
          r1 = operation_resolve op1 m2;
          r2 = operation_resolve op2 (fst r1)
      in \<lparr>after_calls = m2, after_first = fst r1, first_outcome = snd r1,
          after_second = fst r2, second_outcome = snd r2\<rparr>)"

definition is_success :: "'a AuthResult \<Rightarrow> bool" where
  "is_success result = (case result of Success d \<Rightarrow> True | Failure e \<Rightarrow> False)"

definition failure_message :: "'a AuthResult \<Rightarrow> string option" where
  "failure_message result = (case result of Success d \<Rightarrow> None | Failure e \<Rightarrow> Some (message e))"

text \<open>What a call resolves with, read off its own adapter result.\<close>

fun outcome_of :: "operation \<Rightarrow> call_outcome option" where
  "outcome_of (Login result) =
     Some \<lparr>success = is_success result, error = failure_message result\<rparr>"
| "outcome_of (Signup result) =
     Some \<lparr>success = is_success result, error = failure_message result\<rparr>"
| "outcome_of (Logout result) = None"
| "outcome_of (RefreshAuth result) = None"

definition authenticated_with :: "session_data \<Rightarrow> AuthState" where
  "authenticated_with d =
     \<lparr>user = Some (data_user d), tokens = Some (data_tokens d),
      isLoading = False, isAuthenticated = True\<rparr>"

section \<open>Sequences of state changes\<close>

text \<open>
  Everything that calls \<^verbatim>\<open>setState\<close>: the settled initialization, a notification from
  the adapter, the call of login, signup or logout (which sets the loading flag), and
  the settling of each operation with the adapter's result.
\<close>

datatype event =
    InitializeSettled bool "session_data option AuthResult"
  | AuthStateChange "User option" "AuthTokens option"
  | OperationCalled
  | LoginSettled "session_data AuthResult"
  | SignupSettled "session_data AuthResult"
  | LogoutSettled "unit AuthResult"
  | RefreshAuthSettled "User option AuthResult"

fun step :: "event \<Rightarrow> AuthState \<Rightarrow> AuthState" where
  "step (InitializeSettled mounted result) s = initializeAuth_settle mounted result s"
| "step (AuthStateChange u t) s = authStateChange u t s"
| "step OperationCalled s = set_loading s"
| "step (LoginSettled result) s = fst (login_settle result s)"
| "step (SignupSettled result) s = fst (signup_settle result s)"
| "step (LogoutSettled result) s = logout_settle result s"
| "step (RefreshAuthSettled result) s = refreshAuth_settle result s"

fun run :: "event list \<Rightarrow> AuthState \<Rightarrow> AuthState" where
  "run [] s = s"
| "run (e # es) s = run es (step e s)"

text \<open>The data model's invariant: authenticated exactly when a user is stored.\<close>

definition consistent :: "AuthState \<Rightarrow> bool" where
  "consistent s = (isAuthenticated s = (user s \<noteq> None))"

section \<open>The API client (lib/api/apiClient.ts)\<close>

text \<open>
  The module variable \<^verbatim>\<open>authTokenGetter\<close> holds the registered getter, a function the
  module only calls (its type is left open). \<open>getter_invocations\<close> is
  instrumentation: how many times the getter has been called.
\<close>

record 'g api_module =
  authTokenGetter :: "'g option"
  getter_invocations :: nat

record request_config =
  Authorization :: "string option"

definition setAuthTokenGetter :: "'g \<Rightarrow> 'g api_module \<Rightarrow> 'g api_module" where
  "setAuthTokenGetter getter m = m\<lparr>authTokenGetter := Some getter\<rparr>"

text \<open>
  The request interceptor up to its \<^verbatim>\<open>await\<close>: with a getter registered it calls the
  getter. The flag returned says whether a token is awaited.
\<close>

definition request_interceptor_call :: "'g api_module \<Rightarrow> 'g api_module \<times> bool" where
  "request_interceptor_call m =
     (case authTokenGetter m of
        None \<Rightarrow> (m, False)
      | Some getter \<Rightarrow> (m\<lparr>getter_invocations := Suc (getter_invocations m)\<rparr>, True))"

text \<open>The interceptor after the getter has resolved with \<open>token\<close> (\<open>None\<close> is null).\<close>

definition request_interceptor_settle :: "string option \<Rightarrow> request_config \<Rightarrow> request_config" where
  "request_interceptor_settle token config =
     (case token of
        None \<Rightarrow> config
      | Some t \<Rightarrow> if t = [] then config else config\<lparr>Authorization := Some (''Bearer '' @ t)\<rparr>)"

text \<open>\<open>n\<close> requests whose interceptors all start before any getter call has resolved.\<close>

fun concurrent_requests :: "nat \<Rightarrow> 'g api_module \<Rightarrow> 'g api_module" where
  "concurrent_requests 0 m = m"
| "concurrent_requests (Suc n) m = concurrent_requests n (fst (request_interceptor_call m))"

section \<open>The error kinds of the specification\<close>






section \<open>Example values\<close>

definition alice :: User where
  "alice = \<lparr>id_User = ''u-1'', email = ''a@b.com'', emailVerified = True, metadata = None\<rparr>"

definition bob :: User where
  "bob = \<lparr>id_User = ''u-2'', email = ''b@c.com'', emailVerified = False, metadata = None\<rparr>"

definition old_tokens :: AuthTokens where
  "old_tokens = \<lparr>accessToken = ''access-1'', refreshToken = Some ''refresh-1'', expiresAt = Some 100\<rparr>"

definition new_tokens :: AuthTokens where
  "new_tokens = \<lparr>accessToken = ''access-2'', refreshToken = Some ''refresh-2'', expiresAt = Some 200\<rparr>"

definition empty_tokens :: AuthTokens where
  "empty_tokens = \<lparr>accessToken = [], refreshToken = None, expiresAt = None\<rparr>"

definition anonymous_state :: AuthState where
  "anonymous_state = \<lparr>user = None, tokens = None, isLoading = False, isAuthenticated = False\<rparr>"

definition some_credentials :: SignupCredentials where
  "some_credentials = \<lparr>cred_email = ''a@b.com'', password = ''correct'', cred_metadata = None\<rparr>"

definition provider_unavailable :: AuthError where
  "provider_unavailable = \<lparr>code = ''ProviderUnavailable'', message = ''network down'', details = None\<rparr>"

text \<open>An adapter all of whose methods fail with the given error.\<close>

definition failing_adapter :: "AuthError \<Rightarrow> AuthAdapter" where
  "failing_adapter e =
     \<lparr>adapter_initialize = Failure e, adapter_login = (\<lambda>c. Failure e),
      adapter_signup = (\<lambda>c. Failure e), adapter_logout = Failure e,
      adapter_getCurrentUser = Failure e, adapter_getAccessToken = None,
      adapter_refreshToken = Failure e,
      adapter_requestPasswordReset = (\<lambda>a. Failure e),
      adapter_updatePassword = (\<lambda>p. Failure e)\<rparr>"

text \<open>An adapter all of whose methods succeed, with the given user and tokens.\<close>

definition succeeding_adapter :: "User \<Rightarrow> AuthTokens \<Rightarrow> AuthAdapter" where
  "succeeding_adapter u t =
     \<lparr>adapter_initialize = Success (Some \<lparr>data_user = u, data_tokens = t\<rparr>),
      adapter_login = (\<lambda>c. Success \<lparr>data_user = u, data_tokens = t\<rparr>),
      adapter_signup = (\<lambda>c. Success \<lparr>data_user = u, data_tokens = t\<rparr>),
      adapter_logout = Success (),
      adapter_getCurrentUser = Success (Some u),
      adapter_getAccessToken = Some (accessToken t),
      adapter_refreshToken = Success t,
      adapter_requestPasswordReset = (\<lambda>a. Success ()),
      adapter_updatePassword = (\<lambda>p. Success ())\<rparr>"

text \<open>A vendor client that answers every call with the same reply.\<close>

definition replying_client :: "sdk_response sdk_reply \<Rightarrow> SupabaseClient" where
  "replying_client reply =
     \<lparr>getSession = reply, signInWithPassword = (\<lambda>e p. reply),
      signUp = (\<lambda>e p m. reply), signOut = reply, getUser = reply,
      refreshSession = reply, resetPasswordForEmail = (\<lambda>e. reply),
      updateUser = (\<lambda>p. reply)\<rparr>"

definition unconfirmed_user :: supabase_user where
  "unconfirmed_user =
     \<lparr>su_id = ''u-3'', su_email = ''new@b.com'', email_confirmed_at = JsUndefined,
      user_metadata = None\<rparr>"

text \<open>The reply to a sign-up that awaits email confirmation: a user, no session, no error.\<close>

definition verification_pending :: "sdk_response sdk_reply" where
  "verification_pending =
     Resolves \<lparr>resp_error = None, resp_session = None, resp_user = Some unconfirmed_user\<rparr>"



definition some_login :: LoginCredentials where
  "some_login = \<lparr>cred_email = ''a@b.com'', password = ''wrong''\<rparr>"

definition alice_session :: session_data where
  "alice_session = \<lparr>data_user = alice, data_tokens = old_tokens\<rparr>"

definition bob_session :: session_data where
  "bob_session = \<lparr>data_user = bob, data_tokens = new_tokens\<rparr>"

definition idle :: manager where
  "idle = \<lparr>auth_state = anonymous_state, pending_calls = 0\<rparr>"

text \<open>The reply to a sign-up that needs no confirmation: a user and a session.\<close>

definition confirmed_user :: supabase_user where
  "confirmed_user =
     \<lparr>su_id = ''u-4'', su_email = ''old@b.com'',
      email_confirmed_at = JsString ''2024-01-01T00:00:00Z'', user_metadata = None\<rparr>"

definition fresh_session :: supabase_session where
  "fresh_session =
     \<lparr>access_token = ''jwt'', refresh_token = Some ''r'', expires_at = Some 3600,
      session_user = Some confirmed_user\<rparr>"

definition signed_up :: "sdk_response sdk_reply" where
  "signed_up =
     Resolves \<lparr>resp_error = None, resp_session = Some fresh_session,
               resp_user = Some confirmed_user\<rparr>"

section \<open>Basic facts\<close>

lemma set_loading_fields:
  "user (set_loading s) = user s" "tokens (set_loading s) = tokens s"
  "isAuthenticated (set_loading s) = isAuthenticated s" "isLoading (set_loading s)"
  by (simp_all add: set_loading_def)

lemma login_settle_Failure:
  "login_settle (Failure e) s =
     (s\<lparr>isLoading := False\<rparr>, \<lparr>success = False, error = Some (message e)\<rparr>)"
  by (simp add: login_settle_def)

lemma signup_settle_Failure:
  "signup_settle (Failure e) s =
     (s\<lparr>isLoading := False\<rparr>, \<lparr>success = False, error = Some (message e)\<rparr>)"
  by (simp add: signup_settle_def)

lemma login_settle_Success:
  "login_settle (Success d) s = (authenticated_with d, \<lparr>success = True, error = None\<rparr>)"
  by (simp add: login_settle_def authenticated_with_def)

lemma signup_settle_Success:
  "signup_settle (Success d) s = (authenticated_with d, \<lparr>success = True, error = None\<rparr>)"
  by (simp add: signup_settle_def authenticated_with_def)

lemma login_settle_outcome:
  "snd (login_settle result s) =
     \<lparr>success = is_success result, error = failure_message result\<rparr>"
  by (cases result) (simp_all add: login_settle_def is_success_def failure_message_def)

text \<open>The operations, called with nothing else in between, are two steps of \<open>run\<close>.\<close>

lemma login_as_events:
  "fst (login adapter c s) = run [OperationCalled, LoginSettled (adapter_login adapter c)] s"
  by (simp add: login_def)

lemma signup_as_events:
  "fst (signup adapter c s) = run [OperationCalled, SignupSettled (adapter_signup adapter c)] s"
  by (simp add: signup_def)

lemma logout_as_events:
  "logout adapter s = run [OperationCalled, LogoutSettled (adapter_logout adapter)] s"
  by (simp add: logout_def)

lemma refreshAuth_as_events:
  "refreshAuth adapter s = run [RefreshAuthSettled (adapter_getCurrentUser adapter)] s"
  by (simp add: refreshAuth_def)





lemma signup_no_session_failure:
  "signUp client (cred_email c) (password c) (cred_metadata c) = Resolves r \<Longrightarrow>
   resp_error r = None \<Longrightarrow> resp_session r = None \<or> resp_user r = None \<Longrightarrow>
   SupabaseAuthAdapter_signup client c =
     Failure \<lparr>code = ''NO_SESSION'',
              message = ''Signup succeeded but no session. Check email for verification.'',
              details = None\<rparr>"
  by (auto simp add: SupabaseAuthAdapter_signup_def split: option.split)

lemma adapter_signup_Supabase:
  "adapter_signup (SupabaseAuthAdapter client) = SupabaseAuthAdapter_signup client"
  by (simp add: SupabaseAuthAdapter_def)

section \<open>Signup while email verification is pending\<close>

text \<open>
  C1, as the code has it. When the vendor's sign-up resolves with no error but without a
  session or without a user (verification by email is pending), the adapter answers with
  a failure, and signup leaves user, tokens and the authenticated flag as they were, ends
  with the loading flag off and hands the caller the message that says to check the
  email. Every success of the adapter's signup, whatever tokens it carries, makes the
  state authenticated.
\<close>

theorem signup_pending_verification_unchanged:
  "(signUp client (cred_email c) (password c) (cred_metadata c) = Resolves r \<and>
    resp_error r = None \<and> (resp_session r = None \<or> resp_user r = None) \<longrightarrow>
      signup (SupabaseAuthAdapter client) c s =
        (s\<lparr>isLoading := False\<rparr>,
         \<lparr>success = False,
          error = Some ''Signup succeeded but no session. Check email for verification.''\<rparr>)) \<and>
   (adapter_signup adapter c = Success d \<longrightarrow>
      signup adapter c s = (authenticated_with d, \<lparr>success = True, error = None\<rparr>))"
proof (intro conjI impI)
  assume "signUp client (cred_email c) (password c) (cred_metadata c) = Resolves r \<and>
    resp_error r = None \<and> (resp_session r = None \<or> resp_user r = None)"
  then have "SupabaseAuthAdapter_signup client c =
     Failure \<lparr>code = ''NO_SESSION'',
              message = ''Signup succeeded but no session. Check email for verification.'',
              details = None\<rparr>"
    using signup_no_session_failure by blast
  then show "signup (SupabaseAuthAdapter client) c s =
        (s\<lparr>isLoading := False\<rparr>,
         \<lparr>success = False,
          error = Some ''Signup succeeded but no session. Check email for verification.''\<rparr>)"
    by (simp add: signup_def adapter_signup_Supabase signup_settle_Failure set_loading_def)
next
  assume "adapter_signup adapter c = Success d"
  then show "signup adapter c s = (authenticated_with d, \<lparr>success = True, error = None\<rparr>)"
    by (simp add: signup_def signup_settle_Success)
qed

theorem signup_pending_verification_unchanged_witness:
  "signUp (replying_client verification_pending) (cred_email some_credentials)
      (password some_credentials) (cred_metadata some_credentials)
     = verification_pending \<and>
   signup (SupabaseAuthAdapter (replying_client verification_pending)) some_credentials
      anonymous_state =
     (anonymous_state,
      \<lparr>success = False,
       error = Some ''Signup succeeded but no session. Check email for verification.''\<rparr>) \<and>
   adapter_signup (succeeding_adapter alice old_tokens) some_credentials
     = Success alice_session \<and>
   signup (succeeding_adapter alice old_tokens) some_credentials anonymous_state =
     (authenticated_with alice_session, \<lparr>success = True, error = None\<rparr>)"
  using signup_pending_verification_unchanged
    [of "replying_client verification_pending" some_credentials
        "\<lparr>resp_error = None, resp_session = None, resp_user = Some unconfirmed_user\<rparr>"
        anonymous_state "succeeding_adapter alice old_tokens" alice_session]
  by (simp add: replying_client_def verification_pending_def succeeding_adapter_def
      anonymous_state_def alice_session_def)

text \<open>
  The claim as the specification words it fails: a success that carries empty tokens
  makes the state authenticated.
\<close>

theorem signup_empty_tokens_counterexample:
  "signup (succeeding_adapter bob empty_tokens) some_credentials anonymous_state =
     (\<lparr>user = Some bob, tokens = Some empty_tokens, isLoading = False, isAuthenticated = True\<rparr>,
      \<lparr>success = True, error = None\<rparr>)"
  by (simp add: signup_def signup_settle_def succeeding_adapter_def)

section \<open>Two calls at once\<close>

lemma signup_settle_outcome:
  "snd (signup_settle result s) =
     \<lparr>success = is_success result, error = failure_message result\<rparr>"
  by (cases result) (simp_all add: signup_settle_def is_success_def failure_message_def)

lemma after_await_outcome: "snd (after_await opn s) = outcome_of opn"
  by (cases opn) (simp_all add: login_settle_outcome signup_settle_outcome)

text \<open>
  C2, as the code has it. Nothing guards a call: when a second operation is called while
  the first is pending, both adapter calls are pending together, each call resolves by
  its own adapter result alone (for login and signup: success exactly when that result
  is a success, otherwise that result's message), and each successful login sets the
  state to its own user and tokens.
\<close>

theorem overlapping_calls_unguarded:
  "pending_calls (after_calls (overlapping op1 op2 m)) = pending_calls m + 2 \<and>
   first_outcome (overlapping op1 op2 m) = outcome_of op1 \<and>
   second_outcome (overlapping op1 op2 m) = outcome_of op2 \<and>
   auth_state (after_first (overlapping (Login (Success d1)) op2 m)) = authenticated_with d1 \<and>
   auth_state (after_second (overlapping op1 (Login (Success d2)) m)) = authenticated_with d2"
  by (simp add: overlapping_def Let_def operation_call_def operation_resolve_def
      after_await_outcome login_settle_Success)

theorem overlapping_calls_unguarded_witness:
  "pending_calls (after_calls (overlapping (Login (Failure provider_unavailable))
      (Login (Success bob_session)) idle)) = 2 \<and>
   first_outcome (overlapping (Login (Failure provider_unavailable))
      (Login (Success bob_session)) idle) =
     Some \<lparr>success = False, error = Some ''network down''\<rparr> \<and>
   second_outcome (overlapping (Login (Failure provider_unavailable))
      (Login (Success bob_session)) idle) =
     Some \<lparr>success = True, error = None\<rparr> \<and>
   auth_state (after_second (overlapping (Login (Failure provider_unavailable))
      (Login (Success bob_session)) idle)) = authenticated_with bob_session"
  using overlapping_calls_unguarded
    [of "Login (Failure provider_unavailable)" "Login (Success bob_session)" idle
        alice_session bob_session]
  by (simp add: idle_def is_success_def failure_message_def provider_unavailable_def)

text \<open>
  Two overlapping logins that both succeed at the adapter: two adapter calls pending at
  once, two successful state changes, no call turned away.
\<close>

theorem overlapping_logins_counterexample:
  "overlapping (Login (Success alice_session)) (Login (Success bob_session)) idle =
     \<lparr>after_calls =
        \<lparr>auth_state = \<lparr>user = None, tokens = None, isLoading = True, isAuthenticated = False\<rparr>,
         pending_calls = 2\<rparr>,
      after_first =
        \<lparr>auth_state = \<lparr>user = Some alice, tokens = Some old_tokens, isLoading = False,
                       isAuthenticated = True\<rparr>,
         pending_calls = 1\<rparr>,
      first_outcome = Some \<lparr>success = True, error = None\<rparr>,
      after_second =
        \<lparr>auth_state = \<lparr>user = Some bob, tokens = Some new_tokens, isLoading = False,
                       isAuthenticated = True\<rparr>,
         pending_calls = 0\<rparr>,
      second_outcome = Some \<lparr>success = True, error = None\<rparr>\<rparr>"
  by (simp add: overlapping_def operation_call_def operation_resolve_def login_settle_def
      set_loading_def idle_def anonymous_state_def alice_session_def bob_session_def Let_def)

section \<open>Refreshing\<close>

text \<open>
  C3, as the code has it. \<open>refreshAuth\<close> asks the adapter for the current user and
  never looks at what \<open>refreshToken\<close> would answer. It leaves the stored tokens and
  the loading flag as they were; on a success that carries a user it replaces the stored
  user and sets the authenticated flag; on a failure, or a success with no user, the
  whole state is left as it was.
\<close>

theorem refreshAuth_replaces_user_only:
  "tokens (refreshAuth adapter s) = tokens s \<and>
   isLoading (refreshAuth adapter s) = isLoading s \<and>
   refreshAuth (adapter\<lparr>adapter_refreshToken := r\<rparr>) s = refreshAuth adapter s \<and>
   (case adapter_getCurrentUser adapter of
      Success (Some u) \<Rightarrow> refreshAuth adapter s = s\<lparr>user := Some u, isAuthenticated := True\<rparr>
    | Success None \<Rightarrow> refreshAuth adapter s = s
    | Failure e \<Rightarrow> refreshAuth adapter s = s)"
  by (simp add: refreshAuth_def refreshAuth_settle_def split: AuthResult.split option.split)

theorem refreshAuth_replaces_user_only_witness:
  "tokens (refreshAuth (failing_adapter provider_unavailable)
      (authenticated_with alice_session)) = Some old_tokens \<and>
   refreshAuth (failing_adapter provider_unavailable) (authenticated_with alice_session) =
     authenticated_with alice_session"
  using refreshAuth_replaces_user_only
    [of "failing_adapter provider_unavailable" "authenticated_with alice_session"
        "Success new_tokens"]
  by (simp add: failing_adapter_def authenticated_with_def alice_session_def)

text \<open>
  With Alice signed in and an adapter whose \<open>refreshToken\<close> would answer with new
  tokens, refreshing replaces the user by the adapter's current user and keeps the old
  tokens.
\<close>

theorem refreshAuth_counterexample:
  "refreshAuth (succeeding_adapter bob new_tokens) (authenticated_with alice_session) =
     \<lparr>user = Some bob, tokens = Some old_tokens, isLoading = False, isAuthenticated = True\<rparr> \<and>
   adapter_refreshToken (succeeding_adapter bob new_tokens) = Success new_tokens \<and>
   bob \<noteq> alice \<and> new_tokens \<noteq> old_tokens"
  by (simp add: refreshAuth_def refreshAuth_settle_def succeeding_adapter_def
      authenticated_with_def alice_session_def alice_def bob_def new_tokens_def old_tokens_def)

section \<open>Logout\<close>



section \<open>Failed login and signup\<close>

lemma run_append: "run (es @ es') s = run es' (run es s)"
  by (induction es arbitrary: s) simp_all

text \<open>
  C5, as the code has it. A failed login or signup changes nothing but the loading flag.
  Its call turns the flag on and leaves the rest of the state alone. Its settling,
  applied to whatever state is current when the adapter's failure arrives, turns the
  flag off, leaves the rest of that state alone and hands the caller
  \<open>success = False\<close> with the failure's message and nothing else. So after a failed
  call the user and tokens are those left by whatever changed the state between the call
  and its settling; with no change in between they are those before the call.
\<close>

theorem failed_call_changes_only_loading:
  "before_await (Login (Failure e)) s = s\<lparr>isLoading := True\<rparr> \<and>
   before_await (Signup (Failure e)) s = s\<lparr>isLoading := True\<rparr> \<and>
   login_settle (Failure e) s' =
     (s'\<lparr>isLoading := False\<rparr>, \<lparr>success = False, error = Some (message e)\<rparr>) \<and>
   signup_settle (Failure e) s' =
     (s'\<lparr>isLoading := False\<rparr>, \<lparr>success = False, error = Some (message e)\<rparr>) \<and>
   run (OperationCalled # between @ [LoginSettled (Failure e)]) s =
     (run between (s\<lparr>isLoading := True\<rparr>))\<lparr>isLoading := False\<rparr> \<and>
   run (OperationCalled # between @ [SignupSettled (Failure e)]) s =
     (run between (s\<lparr>isLoading := True\<rparr>))\<lparr>isLoading := False\<rparr> \<and>
   (adapter_login adapter c = Failure e \<longrightarrow>
      login adapter c s =
        (s\<lparr>isLoading := False\<rparr>, \<lparr>success = False, error = Some (message e)\<rparr>)) \<and>
   (adapter_signup adapter c' = Failure e \<longrightarrow>
      signup adapter c' s =
        (s\<lparr>isLoading := False\<rparr>, \<lparr>success = False, error = Some (message e)\<rparr>))"
  by (simp add: run_append login_def signup_def login_settle_Failure signup_settle_Failure
      set_loading_def)

theorem failed_call_changes_only_loading_witness:
  "adapter_login (failing_adapter provider_unavailable) some_login
     = Failure provider_unavailable \<and>
   adapter_signup (failing_adapter provider_unavailable) some_credentials
     = Failure provider_unavailable \<and>
   login (failing_adapter provider_unavailable) some_login (authenticated_with alice_session) =
     (authenticated_with alice_session, \<lparr>success = False, error = Some ''network down''\<rparr>) \<and>
   signup (failing_adapter provider_unavailable) some_credentials
       (authenticated_with alice_session) =
     (authenticated_with alice_session, \<lparr>success = False, error = Some ''network down''\<rparr>) \<and>
   run [OperationCalled, AuthStateChange (Some bob) None,
        LoginSettled (Failure provider_unavailable)] (authenticated_with alice_session) =
     \<lparr>user = Some bob, tokens = None, isLoading = False, isAuthenticated = True\<rparr>"
  using failed_call_changes_only_loading
    [of provider_unavailable "authenticated_with alice_session" anonymous_state
        "[AuthStateChange (Some bob) None]" "failing_adapter provider_unavailable"
        some_login some_credentials]
  by (simp add: failing_adapter_def provider_unavailable_def authenticated_with_def
      authStateChange_def)

text \<open>
  A login that fails at the adapter, called while a login that succeeds is pending: it
  is called with no user stored and ends with Alice stored.
\<close>

theorem failed_login_overlap_counterexample:
  "user (auth_state (operation_call (Login (Success alice_session)) idle)) = None \<and>
   tokens (auth_state (operation_call (Login (Success alice_session)) idle)) = None \<and>
   overlapping (Login (Success alice_session)) (Login (Failure provider_unavailable)) idle =
     \<lparr>after_calls =
        \<lparr>auth_state = \<lparr>user = None, tokens = None, isLoading = True, isAuthenticated = False\<rparr>,
         pending_calls = 2\<rparr>,
      after_first =
        \<lparr>auth_state = \<lparr>user = Some alice, tokens = Some old_tokens, isLoading = False,
                       isAuthenticated = True\<rparr>,
         pending_calls = 1\<rparr>,
      first_outcome = Some \<lparr>success = True, error = None\<rparr>,
      after_second =
        \<lparr>auth_state = \<lparr>user = Some alice, tokens = Some old_tokens, isLoading = False,
                       isAuthenticated = True\<rparr>,
         pending_calls = 0\<rparr>,
      second_outcome = Some \<lparr>success = False, error = Some ''network down''\<rparr>\<rparr>"
  by (simp add: overlapping_def operation_call_def operation_resolve_def login_settle_def
      set_loading_def idle_def anonymous_state_def alice_session_def provider_unavailable_def
      Let_def)

section \<open>Error codes of the adapter\<close>

















section \<open>What the adapter's signup answers while verification is pending\<close>

text \<open>
  C7, as the code has it. When the vendor's sign-up resolves with no error but without a
  session or without a user (verification by email is pending), the adapter's signup
  answers with a failure of code \<^verbatim>\<open>NO_SESSION\<close>, not with a success. It answers with a
  success only when the vendor gave both a session and a user, and then with the user
  and the tokens mapped from them.
\<close>

theorem adapter_signup_pending_is_failure:
  "(signUp client (cred_email c) (password c) (cred_metadata c) = Resolves r \<and>
    resp_error r = None \<and> (resp_session r = None \<or> resp_user r = None) \<longrightarrow>
      \<not> is_success (SupabaseAuthAdapter_signup client c) \<and>
      SupabaseAuthAdapter_signup client c =
        Failure \<lparr>code = ''NO_SESSION'',
                 message = ''Signup succeeded but no session. Check email for verification.'',
                 details = None\<rparr>) \<and>
   (SupabaseAuthAdapter_signup client c = Success d \<longrightarrow>
      (\<exists>r' sess u.
         signUp client (cred_email c) (password c) (cred_metadata c) = Resolves r' \<and>
         resp_error r' = None \<and> resp_session r' = Some sess \<and> resp_user r' = Some u \<and>
         d = \<lparr>data_user = mapUser u, data_tokens = mapTokens sess\<rparr>))"
proof (intro conjI impI)
  assume pending: "signUp client (cred_email c) (password c) (cred_metadata c) = Resolves r \<and>
    resp_error r = None \<and> (resp_session r = None \<or> resp_user r = None)"
  then show "SupabaseAuthAdapter_signup client c =
        Failure \<lparr>code = ''NO_SESSION'',
                 message = ''Signup succeeded but no session. Check email for verification.'',
                 details = None\<rparr>"
    using signup_no_session_failure by blast
  then show "\<not> is_success (SupabaseAuthAdapter_signup client c)"
    by (simp add: is_success_def)
next
  assume "SupabaseAuthAdapter_signup client c = Success d"
  then show "\<exists>r' sess u.
         signUp client (cred_email c) (password c) (cred_metadata c) = Resolves r' \<and>
         resp_error r' = None \<and> resp_session r' = Some sess \<and> resp_user r' = Some u \<and>
         d = \<lparr>data_user = mapUser u, data_tokens = mapTokens sess\<rparr>"
    by (auto simp add: SupabaseAuthAdapter_signup_def handleError_def
        split: sdk_reply.splits option.splits if_splits)
qed

theorem adapter_signup_pending_is_failure_witness:
  "signUp (replying_client verification_pending) (cred_email some_credentials)
      (password some_credentials) (cred_metadata some_credentials) = verification_pending \<and>
   \<not> is_success (SupabaseAuthAdapter_signup (replying_client verification_pending)
        some_credentials) \<and>
   SupabaseAuthAdapter_signup (replying_client signed_up) some_credentials =
     Success \<lparr>data_user = mapUser confirmed_user, data_tokens = mapTokens fresh_session\<rparr> \<and>
   (\<exists>r' sess u.
      signUp (replying_client signed_up) (cred_email some_credentials)
        (password some_credentials) (cred_metadata some_credentials) = Resolves r' \<and>
      resp_error r' = None \<and> resp_session r' = Some sess \<and> resp_user r' = Some u \<and>
      \<lparr>data_user = mapUser confirmed_user, data_tokens = mapTokens fresh_session\<rparr> =
        \<lparr>data_user = mapUser u, data_tokens = mapTokens sess\<rparr>)"
proof -
  have pending:
    "signUp (replying_client verification_pending) (cred_email some_credentials)
       (password some_credentials) (cred_metadata some_credentials) = verification_pending"
    by (simp add: replying_client_def)
  have succeeded:
    "SupabaseAuthAdapter_signup (replying_client signed_up) some_credentials =
       Success \<lparr>data_user = mapUser confirmed_user, data_tokens = mapTokens fresh_session\<rparr>"
    by (simp add: SupabaseAuthAdapter_signup_def replying_client_def signed_up_def)
  have "signUp (replying_client verification_pending) (cred_email some_credentials)
       (password some_credentials) (cred_metadata some_credentials) =
         Resolves \<lparr>resp_error = None, resp_session = None, resp_user = Some unconfirmed_user\<rparr> \<and>
     resp_error \<lparr>resp_error = None, resp_session = None, resp_user = Some unconfirmed_user\<rparr>
       = None \<and>
     (resp_session \<lparr>resp_error = None, resp_session = None, resp_user = Some unconfirmed_user\<rparr>
        = None \<or>
      resp_user \<lparr>resp_error = None, resp_session = None, resp_user = Some unconfirmed_user\<rparr>
        = None)"
    by (simp add: replying_client_def verification_pending_def)
  then have "\<not> is_success (SupabaseAuthAdapter_signup (replying_client verification_pending)
          some_credentials)"
    using adapter_signup_pending_is_failure
      [of "replying_client verification_pending" some_credentials
          "\<lparr>resp_error = None, resp_session = None, resp_user = Some unconfirmed_user\<rparr>"]
    by blast
  moreover have "\<exists>r' sess u.
      signUp (replying_client signed_up) (cred_email some_credentials)
        (password some_credentials) (cred_metadata some_credentials) = Resolves r' \<and>
      resp_error r' = None \<and> resp_session r' = Some sess \<and> resp_user r' = Some u \<and>
      \<lparr>data_user = mapUser confirmed_user, data_tokens = mapTokens fresh_session\<rparr> =
        \<lparr>data_user = mapUser u, data_tokens = mapTokens sess\<rparr>"
    using succeeded adapter_signup_pending_is_failure
      [of "replying_client signed_up" some_credentials _
          "\<lparr>data_user = mapUser confirmed_user, data_tokens = mapTokens fresh_session\<rparr>"]
    by blast
  ultimately show ?thesis
    using pending succeeded by blast
qed

text \<open>
  The vendor's reply to a sign-up that awaits confirmation, a user and no session, makes
  the adapter's signup fail.
\<close>

theorem signup_pending_counterexample:
  "\<not> is_success (SupabaseAuthAdapter_signup (replying_client verification_pending)
        some_credentials) \<and>
   SupabaseAuthAdapter_signup (replying_client verification_pending) some_credentials =
     Failure \<lparr>code = ''NO_SESSION'',
              message = ''Signup succeeded but no session. Check email for verification.'',
              details = None\<rparr>"
  by (simp add: SupabaseAuthAdapter_signup_def replying_client_def verification_pending_def
      is_success_def)

section \<open>Token getter calls of the API client\<close>

lemma concurrent_requests_count:
  "authTokenGetter m = Some g \<Longrightarrow>
   getter_invocations (concurrent_requests n m) = getter_invocations m + n \<and>
   authTokenGetter (concurrent_requests n m) = Some g"
  by (induction n arbitrary: m) (simp_all add: request_interceptor_call_def)

lemma concurrent_requests_no_getter:
  "authTokenGetter m = None \<Longrightarrow> concurrent_requests n m = m"
  by (induction n arbitrary: m) (simp_all add: request_interceptor_call_def)

text \<open>
  C8, as the code has it. With a getter registered, every request's interceptor calls
  the getter once: \<open>n\<close> requests that start before any getter call has resolved make
  \<open>n\<close> getter calls. The module keeps no pending handle and no cached token that a
  later request could share.
\<close>

theorem one_getter_call_per_request:
  "getter_invocations (concurrent_requests n (setAuthTokenGetter getter m)) =
     getter_invocations m + n"
  using concurrent_requests_count [of "setAuthTokenGetter getter m" getter n]
  by (simp add: setAuthTokenGetter_def)

theorem one_getter_call_per_request_witness:
  "getter_invocations
     (concurrent_requests 3
        (setAuthTokenGetter () \<lparr>authTokenGetter = None, getter_invocations = 0\<rparr>)) = 3"
  using one_getter_call_per_request
    [of 3 "()" "\<lparr>authTokenGetter = None, getter_invocations = 0\<rparr>"]
  by simp

text \<open>Two requests at once call the getter twice, not once.\<close>

theorem two_requests_counterexample:
  "getter_invocations
     (concurrent_requests 2
        (setAuthTokenGetter () \<lparr>authTokenGetter = None, getter_invocations = 0\<rparr>)) = 2"
  by (simp add: numeral_2_eq_2 setAuthTokenGetter_def request_interceptor_call_def)

section \<open>The authenticated flag and the stored user\<close>

lemma step_consistent: "consistent s \<Longrightarrow> consistent (step e s)"
  by (cases e)
     (auto simp add: consistent_def initializeAuth_settle_def authStateChange_def set_loading_def
       login_settle_def signup_settle_def logout_settle_def refreshAuth_settle_def
       split: AuthResult.split option.split)

lemma run_consistent: "consistent s \<Longrightarrow> consistent (run es s)"
  by (induction es arbitrary: s) (simp_all add: step_consistent)

text \<open>
  C9. In the initial state and after any sequence of state changes (the settled
  initialization, notifications from the adapter, calls and settlings of login, signup,
  logout and refresh, in any order), the authenticated flag is true exactly when a user
  is stored.
\<close>

theorem authenticated_iff_user_present:
  "isAuthenticated (run events initial_state) = (user (run events initial_state) \<noteq> None)"
proof -
  have "consistent initial_state"
    by (simp add: consistent_def initial_state_def)
  then have "consistent (run events initial_state)"
    by (rule run_consistent)
  then show ?thesis
    by (simp add: consistent_def)
qed

theorem authenticated_iff_user_present_witness:
  "isAuthenticated
     (run [InitializeSettled True (Success None), OperationCalled,
           LoginSettled (Success alice_session), AuthStateChange (Some bob) None]
        initial_state) \<and>
   user
     (run [InitializeSettled True (Success None), OperationCalled,
           LoginSettled (Success alice_session), AuthStateChange (Some bob) None]
        initial_state) = Some bob"
  using authenticated_iff_user_present
    [of "[InitializeSettled True (Success None), OperationCalled,
          LoginSettled (Success alice_session), AuthStateChange (Some bob) None]"]
  by (simp add: authStateChange_def)

section \<open>Mapping the vendor's user\<close>

text \<open>
  C10. The mapped user's \<open>emailVerified\<close> is the test that \<open>email_confirmed_at\<close>
  is not null; so a vendor user whose \<open>email_confirmed_at\<close> is absent (undefined) is
  mapped to a user with \<open>emailVerified\<close> true.
\<close>

theorem mapUser_emailVerified:
  "emailVerified (mapUser u) = (email_confirmed_at u \<noteq> JsNull) \<and>
   (email_confirmed_at u = JsUndefined \<longrightarrow> emailVerified (mapUser u))"
  by (simp add: mapUser_def)

theorem mapUser_emailVerified_witness:
  "email_confirmed_at unconfirmed_user = JsUndefined \<and> emailVerified (mapUser unconfirmed_user)"
  using mapUser_emailVerified [of unconfirmed_user]
  by (simp add: unconfirmed_user_def)

end
